theory Spec2Isabelle
  imports Complex_Main
begin

section \<open>Python strings and the tables of the interpreter\<close>

text \<open>
  A Python \<open>str\<close> is a sequence of Unicode code points: a code point is a natural number
  and a string a list of them, so that \<open>len\<close> is \<open>length\<close>. The character tables that
  \<open>str.strip\<close>, \<open>str.split\<close>, \<open>str.islower\<close>, \<open>str.lower\<close>, \<open>str.title\<close> and the
  classes \<open>\s\<close> and \<open>\d\<close> of \<open>re\<close> consult belong to the interpreter, not to
  \<open>parse_pdf_and_classify.py\<close>; every function below takes them as the parameter
  \<open>U\<close>. \<open>str.lower\<close> and \<open>str.title\<close> are whole-string functions there (the lower
  case of a capital sigma depends on its position in the word).
\<close>

type_synonym ustr = "nat list"

record ucd =
  uspace :: "nat \<Rightarrow> bool"
  udecimal :: "nat \<Rightarrow> bool"
  uupper :: "nat \<Rightarrow> bool"
  ulower :: "nat \<Rightarrow> bool"
  utitle :: "nat \<Rightarrow> bool"
  str_lower :: "ustr \<Rightarrow> ustr"
  str_title :: "ustr \<Rightarrow> ustr"

definition ustr :: "string \<Rightarrow> ustr" where
  "ustr s = map of_char s"

text \<open>\<open>s.strip()\<close>: leading and trailing white space removed.\<close>

definition strip :: "ucd \<Rightarrow> ustr \<Rightarrow> ustr" where
  "strip U s = rev (dropWhile (uspace U) (rev (dropWhile (uspace U) s)))"

text \<open>
  \<open>s.split()\<close>: the maximal runs of characters that are not white space, in order.
  \<open>cur\<close> is the word being read, reversed.
\<close>

fun split_aux :: "ucd \<Rightarrow> ustr \<Rightarrow> ustr \<Rightarrow> ustr list" where
  "split_aux U cur [] = (if cur = [] then [] else [rev cur])"
| "split_aux U cur (c # cs) =
     (if uspace U c
      then (if cur = [] then split_aux U [] cs else rev cur # split_aux U [] cs)
      else split_aux U (c # cur) cs)"

definition split :: "ucd \<Rightarrow> ustr \<Rightarrow> ustr list" where
  "split U s = split_aux U [] s"

text \<open>\<open>s.split('\n')\<close>: the pieces between line feeds, the empty ones kept.\<close>

fun split_nl_aux :: "ustr \<Rightarrow> ustr \<Rightarrow> ustr list" where
  "split_nl_aux cur [] = [rev cur]"
| "split_nl_aux cur (c # cs) =
     (if c = 10 then rev cur # split_nl_aux [] cs else split_nl_aux (c # cur) cs)"

definition split_nl :: "ustr \<Rightarrow> ustr list" where
  "split_nl s = split_nl_aux [] s"

text \<open>
  \<open>s.islower()\<close>: no upper-case or title-case character and at least one lower-case
  one; \<open>s.isupper()\<close> likewise. For a string of one character CPython answers with the
  table entry of that character.
\<close>

definition islower :: "ucd \<Rightarrow> ustr \<Rightarrow> bool" where
  "islower U s =
     (case s of
        [c] \<Rightarrow> ulower U c
      | _ \<Rightarrow> \<not> list_ex (\<lambda>c. uupper U c \<or> utitle U c) s \<and> list_ex (ulower U) s)"

definition isupper :: "ucd \<Rightarrow> ustr \<Rightarrow> bool" where
  "isupper U s =
     (case s of
        [c] \<Rightarrow> uupper U c
      | _ \<Rightarrow> \<not> list_ex (\<lambda>c. ulower U c \<or> utitle U c) s \<and> list_ex (uupper U) s)"

text \<open>
  \<open>s.istitle()\<close>: an upper-case or title-case character only after an uncased one, a
  lower-case character only after a cased one, and at least one cased character.
  \<open>prev\<close> says that the previous character was cased, \<open>cased\<close> that one was seen.
\<close>

fun istitle_aux :: "ucd \<Rightarrow> bool \<Rightarrow> bool \<Rightarrow> ustr \<Rightarrow> bool" where
  "istitle_aux U prev cased [] = cased"
| "istitle_aux U prev cased (c # cs) =
     (if uupper U c \<or> utitle U c
      then (if prev then False else istitle_aux U True True cs)
      else if ulower U c
      then (if \<not> prev then False else istitle_aux U True True cs)
      else istitle_aux U False cased cs)"

definition istitle :: "ucd \<Rightarrow> ustr \<Rightarrow> bool" where
  "istitle U s = istitle_aux U False False s"

definition endswith_colon :: "ustr \<Rightarrow> bool" where
  "endswith_colon s \<longleftrightarrow> s \<noteq> [] \<and> last s = 58"

subsection \<open>The four regular expressions\<close>

text \<open>
  \<open>re.search(r'\[\d+\]', line)\<close>. \<open>digits_close\<close> reads \<open>\d*\]\<close> at the head of the
  string, \<open>bracket_here\<close> reads \<open>\[\d\d*\]\<close> there, and the search tries every position.
\<close>

fun digits_close :: "ucd \<Rightarrow> ustr \<Rightarrow> bool" where
  "digits_close U [] = False"
| "digits_close U (c # cs) = (c = 93 \<or> (udecimal U c \<and> digits_close U cs))"

fun bracket_here :: "ucd \<Rightarrow> ustr \<Rightarrow> bool" where
  "bracket_here U (c # d # cs) = (c = 91 \<and> udecimal U d \<and> digits_close U cs)"
| "bracket_here U _ = False"

fun search_bracket :: "ucd \<Rightarrow> ustr \<Rightarrow> bool" where
  "search_bracket U [] = False"
| "search_bracket U (c # cs) = (bracket_here U (c # cs) \<or> search_bracket U cs)"

text \<open>
  \<open>re.match(r'^[\<bullet>\-\<rightarrow>]', line)\<close>: the first character is the bullet U+2022, the hyphen
  or the arrow U+2192.
\<close>

definition match_bullet :: "ustr \<Rightarrow> bool" where
  "match_bullet s = (case s of [] \<Rightarrow> False | c # _ \<Rightarrow> c = 8226 \<or> c = 45 \<or> c = 8594)"

text \<open>
  \<open>re.search(r'[.;,!?]$', line)\<close>: \<open>$\<close> stands at the end of the string and also before
  a line feed that ends it.
\<close>

definition terminal_c :: "nat \<Rightarrow> bool" where
  "terminal_c c \<longleftrightarrow> c = 46 \<or> c = 59 \<or> c = 44 \<or> c = 33 \<or> c = 63"

definition search_terminal :: "ustr \<Rightarrow> bool" where
  "search_terminal s \<longleftrightarrow>
     s \<noteq> [] \<and> (terminal_c (last s) \<or>
       (last s = 10 \<and> butlast s \<noteq> [] \<and> terminal_c (last (butlast s))))"

text \<open>
  \<open>re.match(r'^\d+(\.\d+)*\s', line)\<close>. \<open>num_tail\<close> reads the pattern once a first digit
  is consumed: a further digit, a period followed by a digit and the same again, or the
  white space that ends the match.
\<close>

fun num_tail :: "ucd \<Rightarrow> ustr \<Rightarrow> bool" where
  "num_tail U [] = False"
| "num_tail U [c] = uspace U c"
| "num_tail U (c # d # cs) =
     (uspace U c \<or> (udecimal U c \<and> num_tail U (d # cs))
      \<or> (c = 46 \<and> udecimal U d \<and> num_tail U cs))"

definition match_section_number :: "ucd \<Rightarrow> ustr \<Rightarrow> bool" where
  "match_section_number U s = (case s of [] \<Rightarrow> False | c # cs \<Rightarrow> udecimal U c \<and> num_tail U cs)"

section \<open>The heading heuristic\<close>

datatype py_error = ZeroDivisionError | OtherError string

definition verbs :: "ustr list" where
  "verbs = map ustr [''is'', ''are'', ''was'', ''has'', ''have'', ''were'', ''will'']"

text \<open>
  The number of words \<open>w\<close> with \<open>w[0].isupper()\<close>, a test of one character. A word of
  \<open>split\<close> is never empty; \<open>w[0]\<close> of an empty word would raise and is not reached.
\<close>

definition cap_count :: "ucd \<Rightarrow> ustr list \<Rightarrow> nat" where
  "cap_count U ws = length (filter (\<lambda>w. case w of [] \<Rightarrow> False | c # _ \<Rightarrow> uupper U c) ws)"

text \<open>
  The style-based score of \<open>is_heading\<close>, the last part of its body. The font size, the
  positions and the widths are Python floats, embedded in the reals; \<open>None\<close> is \<open>None\<close>.
  The division by \<open>page_width\<close> raises \<open>ZeroDivisionError\<close> at zero. The weights are
  added in the order of the source; in double precision every sum of them lies on the
  same side of 0.5 as the exact sum, and \<open>k / n > 0.7\<close> agrees with the exact
  comparison for the at most 15 words that reach it.
\<close>

text \<open>
  The literal \<open>0.3\<close> that \<open>y_pos\<close> is compared with is the double nearest to 3/10,
  5404319552844595 / 2^54; the comparison of two doubles is the comparison of their
  values. The quotient \<open>k / n > 0.7\<close> and the centre are computed here without
  rounding and keep the decimal bounds.
\<close>

definition double_0_3 :: real where
  "double_0_3 = 5404319552844595 / 18014398509481984"

definition style_score ::
  "ucd \<Rightarrow> ustr \<Rightarrow> real option \<Rightarrow> bool \<Rightarrow> real option \<Rightarrow> real option \<Rightarrow> real option
     \<Rightarrow> real option \<Rightarrow> py_error + real" where
  "style_score U line font_size is_bold y_pos x_pos width page_width =
    (let score = 0;
         score = (case font_size of
                    Some f \<Rightarrow> if f \<noteq> 0 \<and> f \<ge> 12 then score + 0.4 else score
                  | None \<Rightarrow> score);
         score = (if is_bold then score + 0.3 else score);
         score = (if length (split U line) < 10 then score + 0.2 else score);
         score = (case y_pos of
                    Some y \<Rightarrow> if y < double_0_3 then score + 0.1 else score
                  | None \<Rightarrow> score);
         score = (if isupper U line \<and> length line > 2 then score + 0.2 else score)
     in case (case (x_pos, width, page_width) of
                (Some x, Some w, Some pw) \<Rightarrow>
                  if pw = 0 then Inl ZeroDivisionError
                  else (let center = (x + w / 2) / pw
                        in if 0.45 < center \<and> center < 0.55 then Inr (score + 0.1)
                           else Inr score)
              | _ \<Rightarrow> Inr score) of
          Inl e \<Rightarrow> Inl e
        | Inr score \<Rightarrow>
            (let words = split U line
             in if words \<noteq> []
                then (if real (cap_count U words) / real (length words) > 0.7
                      then Inr (score + 0.1) else Inr score)
                else Inr score))"

definition is_heading ::
  "ucd \<Rightarrow> ustr \<Rightarrow> real option \<Rightarrow> bool \<Rightarrow> real option \<Rightarrow> real option \<Rightarrow> real option
     \<Rightarrow> real option \<Rightarrow> py_error + bool" where
  "is_heading U line0 font_size is_bold y_pos x_pos width page_width =
    (let line = strip U line0
     in if line = [] then Inr False
        else if length (split U line) > 15 then Inr False
        else if 46 \<in> set line \<and> length (split U line) > 8 then Inr False
        else if islower U line then Inr False
        else if list_ex (\<lambda>verb. verb \<in> set (split U (str_lower U line))) verbs then Inr False
        else if search_bracket U line then Inr False
        else if match_bullet line then Inr False
        else if search_terminal line \<and> \<not> endswith_colon line then Inr False
        else if match_section_number U line then Inr True
        else if endswith_colon line then Inr True
        else if istitle U line then Inr True
        else if isupper U line \<and> length line > 2 then Inr True
        else (case style_score U line font_size is_bold y_pos x_pos width page_width of
                Inl e \<Rightarrow> Inl e
              | Inr score \<Rightarrow> Inr (score \<ge> 0.5)))"

text \<open>
  The rejection rules of \<open>is_heading\<close> that follow the test for the empty line, under
  the comment "Reject if clearly body text", as one predicate on the trimmed line.
\<close>

definition body_text :: "ucd \<Rightarrow> ustr \<Rightarrow> bool" where
  "body_text U line \<longleftrightarrow>
     length (split U line) > 15
     \<or> (46 \<in> set line \<and> length (split U line) > 8)
     \<or> islower U line
     \<or> list_ex (\<lambda>verb. verb \<in> set (split U (str_lower U line))) verbs
     \<or> search_bracket U line
     \<or> match_bullet line
     \<or> (search_terminal line \<and> \<not> endswith_colon line)"

subsection \<open>The heuristic without the upper-case bonus of the score\<close>

text \<open>
  The variant that the design notes of the specification propose for a port:
  \<open>is_heading\<close> with the contribution "+0.2 if the text is fully upper case and longer
  than 2" left out of the score, and nothing else changed.
\<close>

definition style_score_without_upper_bonus ::
  "ucd \<Rightarrow> ustr \<Rightarrow> real option \<Rightarrow> bool \<Rightarrow> real option \<Rightarrow> real option \<Rightarrow> real option
     \<Rightarrow> real option \<Rightarrow> py_error + real" where
  "style_score_without_upper_bonus U line font_size is_bold y_pos x_pos width page_width =
    (let score = 0;
         score = (case font_size of
                    Some f \<Rightarrow> if f \<noteq> 0 \<and> f \<ge> 12 then score + 0.4 else score
                  | None \<Rightarrow> score);
         score = (if is_bold then score + 0.3 else score);
         score = (if length (split U line) < 10 then score + 0.2 else score);
         score = (case y_pos of
                    Some y \<Rightarrow> if y < double_0_3 then score + 0.1 else score
                  | None \<Rightarrow> score)
     in case (case (x_pos, width, page_width) of
                (Some x, Some w, Some pw) \<Rightarrow>
                  if pw = 0 then Inl ZeroDivisionError
                  else (let center = (x + w / 2) / pw
                        in if 0.45 < center \<and> center < 0.55 then Inr (score + 0.1)
                           else Inr score)
              | _ \<Rightarrow> Inr score) of
          Inl e \<Rightarrow> Inl e
        | Inr score \<Rightarrow>
            (let words = split U line
             in if words \<noteq> []
                then (if real (cap_count U words) / real (length words) > 0.7
                      then Inr (score + 0.1) else Inr score)
                else Inr score))"

definition is_heading_without_upper_bonus ::
  "ucd \<Rightarrow> ustr \<Rightarrow> real option \<Rightarrow> bool \<Rightarrow> real option \<Rightarrow> real option \<Rightarrow> real option
     \<Rightarrow> real option \<Rightarrow> py_error + bool" where
  "is_heading_without_upper_bonus U line0 font_size is_bold y_pos x_pos width page_width =
    (let line = strip U line0
     in if line = [] then Inr False
        else if length (split U line) > 15 then Inr False
        else if 46 \<in> set line \<and> length (split U line) > 8 then Inr False
        else if islower U line then Inr False
        else if list_ex (\<lambda>verb. verb \<in> set (split U (str_lower U line))) verbs then Inr False
        else if search_bracket U line then Inr False
        else if match_bullet line then Inr False
        else if search_terminal line \<and> \<not> endswith_colon line then Inr False
        else if match_section_number U line then Inr True
        else if endswith_colon line then Inr True
        else if istitle U line then Inr True
        else if isupper U line \<and> length line > 2 then Inr True
        else (case style_score_without_upper_bonus U line font_size is_bold y_pos x_pos width
                     page_width of
                Inl e \<Rightarrow> Inl e
              | Inr score \<Rightarrow> Inr (score \<ge> 0.5)))"


section \<open>The document and the two extractors\<close>

text \<open>
  What \<open>fitz\<close> delivers, as far as the program reads it. A span is a dictionary with the
  keys \<open>text\<close>, \<open>size\<close> and \<open>origin\<close>, and with \<open>font\<close> and \<open>width\<close> read through
  \<open>get\<close> with a default; a line has its \<open>spans\<close>; a block has \<open>lines\<close> or, as an image
  block, has not; a page has its rectangle, the blocks of \<open>get_text('dict')\<close> and the
  plain text of \<open>get_text()\<close>, which may fail.
\<close>

record span =
  span_text :: ustr
  span_size :: real
  span_font :: "ustr option"
  span_origin :: "real \<times> real"
  span_width :: "real option"

record pdf_line =
  spans :: "span list"

record block =
  lines :: "pdf_line list option"

record page =
  rect_width :: real
  rect_height :: real
  blocks :: "block list"
  get_text :: "py_error + ustr"

text \<open>
  The world outside the program: \<open>fitz.open\<close>, the stem of a path (\<open>Path(p).stem\<close>),
  \<open>joblib.load\<close> and the \<open>predict\<close> method of the loaded model, each of the last two
  with the exception it may raise.
\<close>

record 'm env =
  fitz_open :: "ustr \<Rightarrow> py_error + page list"
  path_stem :: "ustr \<Rightarrow> ustr"
  joblib_load :: "ustr \<Rightarrow> py_error + 'm"
  predict :: "'m \<Rightarrow> ustr list \<Rightarrow> py_error + ustr list"

text \<open>
  An element of \<open>headings\<close> is a dictionary with the keys \<open>text\<close> and \<open>page\<close>, an element
  of the outline has the key \<open>level\<close> besides. The key \<open>text\<close> is the field \<open>htext\<close>.
\<close>

record heading =
  htext :: ustr
  page :: nat

record outline_entry = heading +
  level :: ustr

record document_outline =
  title :: ustr
  outline :: "outline_entry list"

text \<open>\<open>sub in s\<close> for strings.\<close>

fun contains :: "ustr \<Rightarrow> ustr \<Rightarrow> bool" where
  "contains sub [] = (sub = [])"
| "contains sub (c # cs) = (take (length sub) (c # cs) = sub \<or> contains sub cs)"

fun max_list :: "real list \<Rightarrow> real option" where
  "max_list [] = None"
| "max_list (x # xs) = Some (fold max xs x)"

subsection \<open>\<open>extract_headings_from_pdf\<close>\<close>

text \<open>
  The body of the innermost loop for one line: \<open>Inr None\<close> when the line is skipped or
  is no heading, \<open>Inr (Some h)\<close> when \<open>h\<close> is appended to \<open>headings\<close>, \<open>Inl e\<close> when the
  body raises (the division by the page height, or \<open>is_heading\<close>).
\<close>

definition heading_of_line :: "ucd \<Rightarrow> nat \<Rightarrow> page \<Rightarrow> pdf_line \<Rightarrow> py_error + heading option" where
  "heading_of_line U page_num pg line =
    (let page_width = rect_width pg;
         line_text = strip U (concat (map span_text (spans line)))
     in if line_text = [] then Inr None
        else
          (let font_sizes = map span_size (spans line);
               font_size = (if font_sizes \<noteq> [] then max_list font_sizes else None);
               is_bold = list_ex (\<lambda>sp. contains (ustr ''Bold'')
                            (case span_font sp of None \<Rightarrow> [] | Some f \<Rightarrow> f)) (spans line);
               x_pos = (case spans line of [] \<Rightarrow> None | sp # _ \<Rightarrow> Some (fst (span_origin sp)))
           in case (case spans line of
                      [] \<Rightarrow> Inr None
                    | sp # _ \<Rightarrow> if rect_height pg = 0 then Inl ZeroDivisionError
                                else Inr (Some (snd (span_origin sp) / rect_height pg))) of
                Inl e \<Rightarrow> Inl e
              | Inr y_pos \<Rightarrow>
                  (let width = (if spans line \<noteq> []
                                then Some (sum_list (map (\<lambda>sp. case span_width sp of
                                                             None \<Rightarrow> 0 | Some w \<Rightarrow> w) (spans line)))
                                else None)
                   in case is_heading U line_text font_size is_bold y_pos x_pos width
                             (Some page_width) of
                        Inl e \<Rightarrow> Inl e
                      | Inr b \<Rightarrow> if b then Inr (Some \<lparr> htext = line_text, page = page_num \<rparr>)
                                 else Inr None)))"

fun lines_loop ::
  "ucd \<Rightarrow> nat \<Rightarrow> page \<Rightarrow> pdf_line list \<Rightarrow> heading list \<Rightarrow> py_error + heading list" where
  "lines_loop U page_num pg [] headings = Inr headings"
| "lines_loop U page_num pg (line # rest) headings =
     (case heading_of_line U page_num pg line of
        Inl e \<Rightarrow> Inl e
      | Inr None \<Rightarrow> lines_loop U page_num pg rest headings
      | Inr (Some h) \<Rightarrow> lines_loop U page_num pg rest (headings @ [h]))"

fun blocks_loop ::
  "ucd \<Rightarrow> nat \<Rightarrow> page \<Rightarrow> block list \<Rightarrow> heading list \<Rightarrow> py_error + heading list" where
  "blocks_loop U page_num pg [] headings = Inr headings"
| "blocks_loop U page_num pg (b # bs) headings =
     (case lines b of
        None \<Rightarrow> blocks_loop U page_num pg bs headings
      | Some ls \<Rightarrow>
          (case lines_loop U page_num pg ls headings of
             Inl e \<Rightarrow> Inl e
           | Inr headings' \<Rightarrow> blocks_loop U page_num pg bs headings'))"

fun pages_loop :: "ucd \<Rightarrow> nat \<Rightarrow> page list \<Rightarrow> heading list \<Rightarrow> py_error + heading list" where
  "pages_loop U page_num [] headings = Inr headings"
| "pages_loop U page_num (pg # pgs) headings =
     (case blocks_loop U page_num pg (blocks pg) headings of
        Inl e \<Rightarrow> Inl e
      | Inr headings' \<Rightarrow> pages_loop U (page_num + 1) pgs headings')"

definition extract_headings_from_pdf :: "ucd \<Rightarrow> 'm env \<Rightarrow> ustr \<Rightarrow> py_error + heading list" where
  "extract_headings_from_pdf U E pdf_path =
     (case fitz_open E pdf_path of
        Inl e \<Rightarrow> Inl e
      | Inr doc \<Rightarrow> pages_loop U 1 doc [])"

subsection \<open>\<open>extract_title_from_pdf\<close>\<close>

text \<open>The class \<open>[0-9\s\.\-]\<close> of the prefix that \<open>re.sub\<close> removes.\<close>

definition prefix_c :: "ucd \<Rightarrow> nat \<Rightarrow> bool" where
  "prefix_c U c \<longleftrightarrow> (48 \<le> c \<and> c \<le> 57) \<or> uspace U c \<or> c = 46 \<or> c = 45"

text \<open>
  The loop over \<open>lines[:5]\<close>: \<open>Some t\<close> at \<open>return title\<close>, with \<open>t\<close> the value of the
  variable \<open>title\<close>, and \<open>None\<close> when the loop runs out.
\<close>

fun title_scan :: "ucd \<Rightarrow> ustr list \<Rightarrow> ustr option" where
  "title_scan U [] = None"
| "title_scan U (l # ls) =
     (let line = strip U l
      in if line \<noteq> [] \<and> length line > 3 \<and> length line < 200
         then (let t = dropWhile (prefix_c U) line;
                   t = strip U t
               in if t \<noteq> [] then Some t else title_scan U ls)
         else title_scan U ls)"

text \<open>
  \<open>s.replace(old, new)\<close> for \<open>old\<close> and \<open>new\<close> of one character each: the string is read
  from the left and every occurrence of \<open>old\<close> gives way to \<open>new\<close>.
\<close>

fun replace_char :: "nat \<Rightarrow> nat \<Rightarrow> ustr \<Rightarrow> ustr" where
  "replace_char old new [] = []"
| "replace_char old new (c # cs) =
     (if c = old then new # replace_char old new cs else c # replace_char old new cs)"

text \<open>The last line of the function: \<open>Path(pdf_path).stem.replace('_', ' ').title()\<close>.\<close>

definition fallback_title :: "ucd \<Rightarrow> 'm env \<Rightarrow> ustr \<Rightarrow> ustr" where
  "fallback_title U E pdf_path = str_title U (replace_char 95 32 (path_stem E pdf_path))"

text \<open>
  Every exception inside the \<open>try\<close> block leads to the fallback below it, as do a
  document without pages, an empty text and a loop that runs out.
\<close>

definition extract_title_from_pdf :: "ucd \<Rightarrow> 'm env \<Rightarrow> ustr \<Rightarrow> ustr" where
  "extract_title_from_pdf U E pdf_path =
     (case fitz_open E pdf_path of
        Inl e \<Rightarrow> fallback_title U E pdf_path
      | Inr doc \<Rightarrow>
          (case doc of
             [] \<Rightarrow> fallback_title U E pdf_path
           | first_page # _ \<Rightarrow>
               (case get_text first_page of
                  Inl e \<Rightarrow> fallback_title U E pdf_path
                | Inr txt \<Rightarrow>
                    if txt \<noteq> []
                    then (case title_scan U (take 5 (split_nl txt)) of
                            Some t \<Rightarrow> t
                          | None \<Rightarrow> fallback_title U E pdf_path)
                    else fallback_title U E pdf_path)))"

subsection \<open>\<open>process_pdf\<close>\<close>

text \<open>
  \<open>process_pdf\<close> returns the calls it made to the classifier, in order, and its result
  or the exception that leaves it.
\<close>

datatype call = Load ustr | Predict "ustr list"

definition process_pdf ::
  "ucd \<Rightarrow> 'm env \<Rightarrow> ustr \<Rightarrow> ustr \<Rightarrow> call list \<times> (py_error + document_outline)" where
  "process_pdf U E pdf_path model_path =
    (let t = extract_title_from_pdf U E pdf_path
     in case extract_headings_from_pdf U E pdf_path of
          Inl e \<Rightarrow> ([], Inl e)
        | Inr headings \<Rightarrow>
            if headings = [] then ([], Inr \<lparr> title = t, outline = [] \<rparr>)
            else
              (case joblib_load E model_path of
                 Inl e \<Rightarrow> ([Load model_path], Inl e)
               | Inr model \<Rightarrow>
                   (let texts = map htext headings
                    in case predict E model texts of
                         Inl e \<Rightarrow> ([Load model_path, Predict texts], Inl e)
                       | Inr levels \<Rightarrow>
                           ([Load model_path, Predict texts],
                            Inr \<lparr> title = t,
                                  outline = map (\<lambda>(h, lv). \<lparr> htext = htext h, page = page h,
                                                           level = lv \<rparr>)
                                              (zip headings levels) \<rparr>))))"

subsection \<open>The lines of a document in reading order\<close>

text \<open>
  The lines of all blocks of a page in order, and the lines of all pages, each with the
  number of its page, counted from \<open>n\<close>. The accepted lines are those for which the loop
  body yields a heading.
\<close>

definition page_lines :: "page \<Rightarrow> pdf_line list" where
  "page_lines pg = concat (map (\<lambda>b. case lines b of None \<Rightarrow> [] | Some ls \<Rightarrow> ls) (blocks pg))"

fun doc_lines :: "nat \<Rightarrow> page list \<Rightarrow> (nat \<times> page \<times> pdf_line) list" where
  "doc_lines n [] = []"
| "doc_lines n (pg # pgs) = map (\<lambda>l. (n, pg, l)) (page_lines pg) @ doc_lines (Suc n) pgs"

definition accepts :: "ucd \<Rightarrow> nat \<times> page \<times> pdf_line \<Rightarrow> bool" where
  "accepts U x = (case x of (n, pg, l) \<Rightarrow>
     (case heading_of_line U n pg l of Inr (Some h) \<Rightarrow> True | _ \<Rightarrow> False))"

definition candidate :: "ucd \<Rightarrow> nat \<times> page \<times> pdf_line \<Rightarrow> heading" where
  "candidate U x = (case x of (n, pg, l) \<Rightarrow>
     \<lparr> htext = strip U (concat (map span_text (spans l))), page = n \<rparr>)"

definition rejects :: "ucd \<Rightarrow> nat \<times> page \<times> pdf_line \<Rightarrow> bool" where
  "rejects U x = (case x of (n, pg, l) \<Rightarrow> heading_of_line U n pg l = Inr None)"

subsection \<open>The title as the specification words it\<close>

text \<open>
  Among at most the first five lines of the text of page 1, the first whose trimmed
  length is greater than 3 and less than 200 and of which something remains after the
  leading run of digits, white space, periods and hyphens is removed; that remainder is
  the title. Without such a line, and without a readable text, the fallback below.
\<close>

definition qualifies :: "ucd \<Rightarrow> ustr \<Rightarrow> bool" where
  "qualifies U l \<longleftrightarrow>
     length (strip U l) > 3 \<and> length (strip U l) < 200
     \<and> dropWhile (prefix_c U) (strip U l) \<noteq> []"

text \<open>
  The fallback in the words of the specification: the stem of the file name, every
  underscore replaced by a blank, title-cased.
\<close>

definition title_cased_stem :: "ucd \<Rightarrow> ustr \<Rightarrow> ustr" where
  "title_cased_stem U filename_stem =
     str_title U (map (\<lambda>c. if c = 95 then 32 else c) filename_stem)"

definition extract_title :: "ucd \<Rightarrow> ustr option \<Rightarrow> ustr \<Rightarrow> ustr" where
  "extract_title U first_page_text filename_stem =
     (case first_page_text of
        None \<Rightarrow> title_cased_stem U filename_stem
      | Some txt \<Rightarrow>
          (case find (qualifies U) (take 5 (split_nl txt)) of
             Some l \<Rightarrow> dropWhile (prefix_c U) (strip U l)
           | None \<Rightarrow> title_cased_stem U filename_stem))"

definition first_page_text :: "'m env \<Rightarrow> ustr \<Rightarrow> ustr option" where
  "first_page_text E pdf_path =
     (case fitz_open E pdf_path of
        Inl e \<Rightarrow> None
      | Inr doc \<Rightarrow>
          (case doc of
             [] \<Rightarrow> None
           | first_page # _ \<Rightarrow> (case get_text first_page of Inl e \<Rightarrow> None | Inr txt \<Rightarrow> Some txt)))"

section \<open>The tables on ASCII\<close>

text \<open>
  The tables of CPython restricted to the code points below 128, for evaluating the
  functions at ASCII texts. Above 127 these tables say "no white space, no digit, no
  letter"; they are applied to ASCII texts only.
\<close>

definition ascii_space :: "nat \<Rightarrow> bool" where
  "ascii_space c \<longleftrightarrow> (9 \<le> c \<and> c \<le> 13) \<or> (28 \<le> c \<and> c \<le> 32)"

definition ascii_decimal :: "nat \<Rightarrow> bool" where
  "ascii_decimal c \<longleftrightarrow> 48 \<le> c \<and> c \<le> 57"

definition ascii_upper :: "nat \<Rightarrow> bool" where
  "ascii_upper c \<longleftrightarrow> 65 \<le> c \<and> c \<le> 90"

definition ascii_lower :: "nat \<Rightarrow> bool" where
  "ascii_lower c \<longleftrightarrow> 97 \<le> c \<and> c \<le> 122"

definition ascii_tolower :: "nat \<Rightarrow> nat" where
  "ascii_tolower c = (if ascii_upper c then c + 32 else c)"

definition ascii_toupper :: "nat \<Rightarrow> nat" where
  "ascii_toupper c = (if ascii_lower c then c - 32 else c)"

fun ascii_title_aux :: "bool \<Rightarrow> ustr \<Rightarrow> ustr" where
  "ascii_title_aux prev [] = []"
| "ascii_title_aux prev (c # cs) =
     (if prev then ascii_tolower c else ascii_toupper c)
       # ascii_title_aux (ascii_upper c \<or> ascii_lower c) cs"

definition ascii :: ucd where
  "ascii = \<lparr> uspace = ascii_space, udecimal = ascii_decimal, uupper = ascii_upper,
             ulower = ascii_lower, utitle = (\<lambda>c. False),
             str_lower = map ascii_tolower, str_title = ascii_title_aux False \<rparr>"

section \<open>A sample document\<close>

text \<open>
  Two pages for evaluating the functions: lines of one span each in one block after an
  image block, a document without a heading, a path that cannot be opened, and models
  that answer with two labels, with one label, or fail in \<open>predict\<close>.
\<close>

definition one_span :: "string \<Rightarrow> span" where
  "one_span s = \<lparr> span_text = ustr s, span_size = 11, span_font = Some (ustr ''Helvetica''),
                  span_origin = (72, 100), span_width = Some 150 \<rparr>"

definition sample_page :: "string list \<Rightarrow> string \<Rightarrow> page" where
  "sample_page ls plain =
     \<lparr> rect_width = 595, rect_height = 842,
       blocks = [\<lparr> lines = None \<rparr>, \<lparr> lines = Some (map (\<lambda>s. \<lparr> spans = [one_span s] \<rparr>) ls) \<rparr>],
       get_text = Inr (ustr plain) \<rparr>"

definition sample_doc :: "page list" where
  "sample_doc =
     [sample_page [''Introduction'', ''this report has three parts'']
        ''2024\<newline>Acme Corp Annual Report\<newline>this report has three parts'',
      sample_page [''1.1 Background''] ''1.1 Background'']"

definition plain_doc :: "page list" where
  "plain_doc = [sample_page [''nothing to see here'', ''   ''] ''nothing to see here'']"

definition blank_doc :: "page list" where
  "blank_doc = [sample_page [] ''2024\<newline> - 12.5 -\<newline>abc\<newline>\<newline>'']"

definition sample_env :: "(ustr list option) env" where
  "sample_env =
     \<lparr> fitz_open = (\<lambda>p. if p = ustr ''plain.pdf'' then Inr plain_doc
                          else if p = ustr ''lost_file.pdf'' then Inl (OtherError ''cannot open'')
                          else if p = ustr ''2024_q3-notes.pdf'' then Inr blank_doc
                          else Inr sample_doc),
       path_stem = (\<lambda>p. takeWhile (\<lambda>c. c \<noteq> 46) p),
       joblib_load = (\<lambda>p. if p = ustr ''two.joblib'' then Inr (Some [ustr ''H1'', ustr ''H2''])
                            else if p = ustr ''one.joblib'' then Inr (Some [ustr ''H1''])
                            else if p = ustr ''failing.joblib'' then Inr None
                            else Inl (OtherError ''no such file'')),
       predict = (\<lambda>m texts. case m of Some labels \<Rightarrow> Inr labels
                                      | None \<Rightarrow> Inl (OtherError ''predict failed'')) \<rparr>"


definition sample_headings :: "heading list" where
  "sample_headings = [\<lparr> htext = ustr ''Introduction'', page = 1 \<rparr>,
                      \<lparr> htext = ustr ''1.1 Background'', page = 2 \<rparr>]"


section \<open>Properties of the heading heuristic\<close>

subsection \<open>The citation pattern survives trimming\<close>

lemma search_bracket_dropWhile:
  "\<not> P 91 \<Longrightarrow> search_bracket U s \<Longrightarrow> search_bracket U (dropWhile P s)"
proof (induction s)
  case Nil
  then show ?case by simp
next
  case (Cons c cs)
  show ?case
  proof (cases "P c")
    case True
    with Cons.prems have "c \<noteq> 91" by auto
    then have "\<not> bracket_here U (c # cs)" by (cases cs) auto
    with Cons True show ?thesis by simp
  next
    case False
    with Cons.prems show ?thesis by simp
  qed
qed

lemma digits_close_append: "digits_close U s \<Longrightarrow> digits_close U (s @ t)"
  by (induction s) auto

lemma bracket_here_append: "bracket_here U s \<Longrightarrow> bracket_here U (s @ t)"
proof (cases s)
  case Nil
  assume "bracket_here U s"
  with Nil show ?thesis by simp
next
  case (Cons a as)
  assume h: "bracket_here U s"
  show ?thesis
  proof (cases as)
    case Nil
    with Cons h show ?thesis by simp
  next
    case (Cons d cs)
    with \<open>s = a # as\<close> h show ?thesis by (simp add: digits_close_append)
  qed
qed

lemma search_bracket_append: "search_bracket U s \<Longrightarrow> search_bracket U (s @ t)"
proof (induction s)
  case Nil
  then show ?case by simp
next
  case (Cons c cs)
  from Cons.prems have "bracket_here U (c # cs) \<or> search_bracket U cs" by simp
  then show ?case
  proof
    assume "bracket_here U (c # cs)"
    then have "bracket_here U ((c # cs) @ t)" by (rule bracket_here_append)
    then show ?thesis by simp
  next
    assume "search_bracket U cs"
    then have "search_bracket U (cs @ t)" by (rule Cons.IH)
    then show ?thesis by simp
  qed
qed

lemma digits_close_butlast:
  "digits_close U (s @ [c]) \<Longrightarrow> c \<noteq> 93 \<Longrightarrow> digits_close U s"
  by (induction s) auto

lemma bracket_here_butlast:
  "bracket_here U (s @ [c]) \<Longrightarrow> c \<noteq> 93 \<Longrightarrow> bracket_here U s"
proof (cases s)
  case Nil
  assume "bracket_here U (s @ [c])"
  with Nil show ?thesis by simp
next
  case (Cons a as)
  assume h: "bracket_here U (s @ [c])" and c: "c \<noteq> 93"
  show ?thesis
  proof (cases as)
    case Nil
    with Cons h show ?thesis by simp
  next
    case (Cons d cs)
    with \<open>s = a # as\<close> h c show ?thesis by (auto dest: digits_close_butlast)
  qed
qed

lemma search_bracket_butlast:
  "search_bracket U (s @ [c]) \<Longrightarrow> c \<noteq> 93 \<Longrightarrow> search_bracket U s"
proof (induction s)
  case Nil
  then show ?case by simp
next
  case (Cons a s)
  from Cons.prems have "bracket_here U ((a # s) @ [c]) \<or> search_bracket U (s @ [c])" by simp
  then show ?case
  proof
    assume "bracket_here U ((a # s) @ [c])"
    with Cons.prems have "bracket_here U (a # s)" by (blast dest: bracket_here_butlast)
    then show ?thesis by simp
  next
    assume "search_bracket U (s @ [c])"
    with Cons have "search_bracket U s" by blast
    then show ?thesis by simp
  qed
qed

lemma search_bracket_rstrip:
  "\<not> P 93 \<Longrightarrow> search_bracket U s \<Longrightarrow> search_bracket U (rev (dropWhile P (rev s)))"
proof (induction s rule: rev_induct)
  case Nil
  then show ?case by simp
next
  case (snoc c s)
  show ?case
  proof (cases "P c")
    case True
    with snoc.prems have "c \<noteq> 93" by auto
    with snoc.prems have "search_bracket U s" by (auto dest: search_bracket_butlast)
    with snoc True show ?thesis by simp
  next
    case False
    with snoc.prems show ?thesis by simp
  qed
qed

lemma search_bracket_strip:
  "\<not> uspace U 91 \<Longrightarrow> \<not> uspace U 93 \<Longrightarrow> search_bracket U s \<Longrightarrow> search_bracket U (strip U s)"
  unfolding strip_def by (intro search_bracket_rstrip search_bracket_dropWhile)


lemma style_score_upper_dead:
  "\<not> (isupper U line \<and> length line > 2) \<Longrightarrow>
   style_score U line font_size is_bold y_pos x_pos width page_width =
   style_score_without_upper_bonus U line font_size is_bold y_pos x_pos width page_width"
  unfolding style_score_def style_score_without_upper_bonus_def Let_def
  by (simp only: if_False)

subsection \<open>Numbered lines\<close>

text \<open>
  C1, as stated, fails: the line \<open>1.2.3 overview\<close> starts with a numeric section prefix,
  and \<open>is_heading\<close> returns \<open>False\<close> for it even in bold 14 point type at the top of
  the page, because the test for an all-lowercase line comes first.
\<close>

theorem numbered_lowercase_rejected:
  "match_section_number ascii (ustr ''1.2.3 overview'') \<and>
   is_heading ascii (ustr ''1.2.3 overview'') (Some 14) True (Some 0.1) None None None
     = Inr False"
  by code_simp

text \<open>
  C1, amended: for every line whose trimmed text starts with a numeric section prefix and
  is not rejected as body text by one of the rejection rules, \<open>is_heading\<close> returns
  \<open>True\<close>, whatever the font size, the bold flag, the positions and the widths are.
\<close>

theorem numbered_accepted:
  "match_section_number U (strip U line) \<Longrightarrow> \<not> body_text U (strip U line) \<Longrightarrow>
   is_heading U line font_size is_bold y_pos x_pos width page_width = Inr True"
  by (auto simp add: is_heading_def Let_def body_text_def match_section_number_def)

theorem numbered_accepted_witness:
  "match_section_number ascii (strip ascii (ustr ''1.2.3 Introduction'')) \<and>
   \<not> body_text ascii (strip ascii (ustr ''1.2.3 Introduction'')) \<and>
   is_heading ascii (ustr ''1.2.3 Introduction'') None False None None None None = Inr True"
proof -
  have m: "match_section_number ascii (strip ascii (ustr ''1.2.3 Introduction''))"
    by code_simp
  have b: "\<not> body_text ascii (strip ascii (ustr ''1.2.3 Introduction''))"
    by code_simp
  from numbered_accepted [OF m b, of None False None None None None] m b
  show ?thesis by (intro conjI)
qed

text \<open>
  C4: the line \<open>1. Introduction\<close> in bold 14 point type at a tenth of the page height.
  \<open>is_heading\<close> returns \<open>True\<close>, but the expression for the section number does not
  match the text: after the digit it wants a further digit, a period followed by a
  digit, or white space, and finds a period followed by a blank. The line is accepted
  by the title-case rule. A line with the same numbering that is not in title case,
  \<open>1. Scope of work\<close>, is refused without style information, while \<open>1 Scope of work\<close>
  is accepted.
\<close>

theorem numbered_with_period_not_matched:
  "\<not> match_section_number ascii (strip ascii (ustr ''1. Introduction'')) \<and>
   istitle ascii (strip ascii (ustr ''1. Introduction'')) \<and>
   is_heading ascii (ustr ''1. Introduction'') (Some 14) True (Some 0.1) None None None
     = Inr True \<and>
   is_heading ascii (ustr ''1. Scope of work'') None False None None None None = Inr False \<and>
   is_heading ascii (ustr ''1 Scope of work'') None False None None None None = Inr True"
  by code_simp

subsection \<open>Rejections that no style can undo\<close>

text \<open>
  C3: a line whose text contains a bracketed integer such as \<open>[12]\<close> is never a
  heading, for all values of the font size, the bold flag, the positions and the widths.
  The two brackets are not white space in the tables of the interpreter, so trimming
  keeps the pattern.
\<close>

theorem citation_rejected:
  "\<not> uspace U 91 \<Longrightarrow> \<not> uspace U 93 \<Longrightarrow> search_bracket U line \<Longrightarrow>
   is_heading U line font_size is_bold y_pos x_pos width page_width = Inr False"
  using search_bracket_strip [of U line]
  by (simp add: is_heading_def Let_def)

theorem citation_rejected_witness:
  "\<not> uspace ascii 91 \<and> \<not> uspace ascii 93 \<and> search_bracket ascii (ustr ''RESULTS [12]'') \<and>
   is_heading ascii (ustr ''RESULTS [12]'') (Some 14) True (Some 0.1) (Some 250) (Some 100)
     (Some 600) = Inr False"
proof -
  have l: "\<not> uspace ascii 91" by code_simp
  have r: "\<not> uspace ascii 93" by code_simp
  have s: "search_bracket ascii (ustr ''RESULTS [12]'')" by code_simp
  from citation_rejected [OF l r s, of "Some 14" True "Some 0.1" "Some 250" "Some 100" "Some 600"]
    l r s
  show ?thesis by (intro conjI)
qed

text \<open>
  C5: a line whose trimmed text is not empty and entirely lower case (no upper-case or
  title-case character, at least one lower-case character) is never a heading, for all
  values of the style parameters.
\<close>

theorem lowercase_rejected:
  "strip U line \<noteq> [] \<Longrightarrow> islower U (strip U line) \<Longrightarrow>
   is_heading U line font_size is_bold y_pos x_pos width page_width = Inr False"
  by (simp add: is_heading_def Let_def)

theorem lowercase_rejected_witness:
  "strip ascii (ustr '' related work '') \<noteq> [] \<and>
   islower ascii (strip ascii (ustr '' related work '')) \<and>
   is_heading ascii (ustr '' related work '') (Some 14) True (Some 0.1) (Some 250) (Some 100)
     (Some 600) = Inr False"
proof -
  have n: "strip ascii (ustr '' related work '') \<noteq> []" by code_simp
  have l: "islower ascii (strip ascii (ustr '' related work ''))" by code_simp
  from lowercase_rejected [OF n l, of "Some 14" True "Some 0.1" "Some 250" "Some 100" "Some 600"]
    n l
  show ?thesis by (intro conjI)
qed

subsection \<open>The dead contribution to the score\<close>

text \<open>
  C9: the contribution "+0.2 if the text is fully upper case and longer than 2" to the
  score is never added: \<open>is_heading\<close> and the variant without that contribution give the
  same result, value or error, on every input, because a line that satisfies the
  condition has been accepted before the score is computed.
\<close>

theorem upper_bonus_unreachable:
  "is_heading U line font_size is_bold y_pos x_pos width page_width =
   is_heading_without_upper_bonus U line font_size is_bold y_pos x_pos width page_width"
  unfolding is_heading_def is_heading_without_upper_bonus_def Let_def
  by (simp add: style_score_upper_dead)

theorem upper_bonus_unreachable_witness:
  "is_heading ascii (ustr ''Scope of work'') (Some 14) False None None None None =
   is_heading_without_upper_bonus ascii (ustr ''Scope of work'') (Some 14) False None None
     None None \<and>
   is_heading_without_upper_bonus ascii (ustr ''Scope of work'') (Some 14) False None None
     None None = Inr True"
proof -
  have v: "is_heading_without_upper_bonus ascii (ustr ''Scope of work'') (Some 14) False None
     None None None = Inr True"
    by code_simp
  from upper_bonus_unreachable [of ascii "ustr ''Scope of work''" "Some 14" False None None
     None None] v
  show ?thesis by (intro conjI)
qed

section \<open>Properties of the extractors and of \<open>process_pdf\<close>\<close>

subsection \<open>The headings are the accepted lines in reading order\<close>

lemma heading_of_line_candidate:
  "heading_of_line U n pg l = Inr (Some h) \<Longrightarrow> h = candidate U (n, pg, l)"
  unfolding heading_of_line_def candidate_def Let_def
  by (auto split: if_splits sum.splits list.splits)

lemma lines_loop_filter:
  "lines_loop U n pg ls acc = Inr hs \<Longrightarrow>
   hs = acc @ map (candidate U) (filter (accepts U) (map (\<lambda>l. (n, pg, l)) ls))"
proof (induction ls arbitrary: acc)
  case Nil
  then show ?case by simp
next
  case (Cons l ls)
  show ?case
  proof (cases "heading_of_line U n pg l")
    case (Inl e)
    with Cons.prems show ?thesis by simp
  next
    case (Inr r)
    show ?thesis
    proof (cases r)
      case None
      with Inr Cons.prems have "lines_loop U n pg ls acc = Inr hs" by simp
      then have "hs = acc @ map (candidate U) (filter (accepts U) (map (\<lambda>l. (n, pg, l)) ls))"
        by (rule Cons.IH)
      moreover from Inr None have "\<not> accepts U (n, pg, l)" by (simp add: accepts_def)
      ultimately show ?thesis by simp
    next
      case (Some h)
      with Inr Cons.prems have "lines_loop U n pg ls (acc @ [h]) = Inr hs" by simp
      then have "hs = (acc @ [h]) @ map (candidate U) (filter (accepts U) (map (\<lambda>l. (n, pg, l)) ls))"
        by (rule Cons.IH)
      moreover from Inr Some have "h = candidate U (n, pg, l)"
        by (simp add: heading_of_line_candidate)
      moreover from Inr Some have "accepts U (n, pg, l)" by (simp add: accepts_def)
      ultimately show ?thesis by simp
    qed
  qed
qed

lemma blocks_loop_filter:
  "blocks_loop U n pg bs acc = Inr hs \<Longrightarrow>
   hs = acc @ map (candidate U) (filter (accepts U)
          (map (\<lambda>l. (n, pg, l)) (concat (map (\<lambda>b. case lines b of None \<Rightarrow> [] | Some ls \<Rightarrow> ls) bs))))"
proof (induction bs arbitrary: acc)
  case Nil
  then show ?case by simp
next
  case (Cons b bs)
  show ?case
  proof (cases "lines b")
    case None
    with Cons.prems have "blocks_loop U n pg bs acc = Inr hs" by simp
    from Cons.IH [OF this] None show ?thesis by simp
  next
    case (Some ls)
    show ?thesis
    proof (cases "lines_loop U n pg ls acc")
      case (Inl e)
      with Some Cons.prems show ?thesis by simp
    next
      case (Inr mid)
      with Some Cons.prems have "blocks_loop U n pg bs mid = Inr hs" by simp
      from Cons.IH [OF this] lines_loop_filter [OF Inr] Some show ?thesis by simp
    qed
  qed
qed

lemma pages_loop_filter:
  "pages_loop U n pgs acc = Inr hs \<Longrightarrow>
   hs = acc @ map (candidate U) (filter (accepts U) (doc_lines n pgs))"
proof (induction pgs arbitrary: n acc)
  case Nil
  then show ?case by simp
next
  case (Cons pg pgs)
  show ?case
  proof (cases "blocks_loop U n pg (blocks pg) acc")
    case (Inl e)
    with Cons.prems show ?thesis by simp
  next
    case (Inr mid)
    with Cons.prems have "pages_loop U (Suc n) pgs mid = Inr hs" by simp
    from Cons.IH [OF this] blocks_loop_filter [OF Inr] show ?thesis
      by (simp add: page_lines_def)
  qed
qed

lemma extract_headings_filter:
  "fitz_open E pdf_path = Inr doc \<Longrightarrow> extract_headings_from_pdf U E pdf_path = Inr hs \<Longrightarrow>
   hs = map (candidate U) (filter (accepts U) (doc_lines 1 doc))"
  using pages_loop_filter [of U 1 doc "[]" hs]
  by (simp add: extract_headings_from_pdf_def)

lemma doc_lines_lower: "x \<in> set (doc_lines n pgs) \<Longrightarrow> n \<le> fst x"
  by (induction pgs arbitrary: n) (auto dest: Suc_leD)

lemma doc_lines_sorted: "sorted (map fst (doc_lines n pgs))"
  by (induction pgs arbitrary: n)
     (auto simp: sorted_append comp_def map_replicate_const dest: doc_lines_lower)

lemma page_candidate: "page (candidate U x) = fst x"
  by (cases x) (simp add: candidate_def)

lemma candidates_sorted:
  "sorted (map page (map (candidate U) (filter (accepts U) (doc_lines n pgs))))"
proof -
  have eq: "map page (map (candidate U) xs) = map fst xs" for xs
    by (induction xs) (simp_all add: page_candidate)
  show ?thesis
    unfolding eq by (rule sorted_filter) (rule doc_lines_sorted)
qed

lemma lines_loop_rejects:
  "list_all (rejects U) (map (\<lambda>l. (n, pg, l)) ls) \<Longrightarrow> lines_loop U n pg ls acc = Inr acc"
  by (induction ls) (auto simp: rejects_def)

lemma blocks_loop_rejects:
  "list_all (rejects U) (map (\<lambda>l. (n, pg, l))
      (concat (map (\<lambda>b. case lines b of None \<Rightarrow> [] | Some ls \<Rightarrow> ls) bs))) \<Longrightarrow>
   blocks_loop U n pg bs acc = Inr acc"
  by (induction bs) (auto simp: lines_loop_rejects split: option.splits)

lemma pages_loop_rejects:
  "list_all (rejects U) (doc_lines n pgs) \<Longrightarrow> pages_loop U n pgs acc = Inr acc"
  by (induction pgs arbitrary: n) (auto simp: blocks_loop_rejects page_lines_def)

subsection \<open>The title\<close>

lemma strip_fixed:
  assumes "s \<noteq> []" "\<not> uspace U (hd s)" "\<not> uspace U (last s)"
  shows "strip U s = s"
proof -
  from assms have "dropWhile (uspace U) s = s" by (cases s) auto
  moreover from assms have "dropWhile (uspace U) (rev s) = rev s"
    by (cases "rev s") (auto simp: last_rev [symmetric] simp del: last_rev)
  ultimately show ?thesis by (simp add: strip_def)
qed

lemma strip_last: "strip U s \<noteq> [] \<Longrightarrow> \<not> uspace U (last (strip U s))"
proof -
  assume ne: "strip U s \<noteq> []"
  let ?d = "dropWhile (uspace U) (rev (dropWhile (uspace U) s))"
  from ne have "?d \<noteq> []" by (simp add: strip_def)
  then have "\<not> uspace U (hd ?d)" by (rule hd_dropWhile)
  moreover from \<open>?d \<noteq> []\<close> have "last (strip U s) = hd ?d"
    by (simp add: strip_def last_rev)
  ultimately show ?thesis by simp
qed

lemma strip_after_prefix:
  "strip U (dropWhile (prefix_c U) (strip U l)) = dropWhile (prefix_c U) (strip U l)"
proof (cases "dropWhile (prefix_c U) (strip U l) = []")
  case True
  show ?thesis unfolding True by (simp add: strip_def)
next
  case False
  let ?t = "strip U l" and ?r = "dropWhile (prefix_c U) (strip U l)"
  from False have "\<not> prefix_c U (hd ?r)" by (rule hd_dropWhile)
  then have h: "\<not> uspace U (hd ?r)" by (simp add: prefix_c_def)
  have "?t = takeWhile (prefix_c U) ?t @ ?r" by simp
  with False have "last ?t = last ?r" by (metis last_appendR)
  moreover from False have "?t \<noteq> []" by auto
  ultimately have "\<not> uspace U (last ?r)" using strip_last [of U l] by simp
  with False h show ?thesis by (rule strip_fixed)
qed

lemma title_scan_find:
  "title_scan U ls =
   map_option (\<lambda>l. dropWhile (prefix_c U) (strip U l)) (find (qualifies U) ls)"
proof (induction ls)
  case Nil
  then show ?case by simp
next
  case (Cons l ls)
  show ?case
  proof (cases "qualifies U l")
    case True
    then show ?thesis by (auto simp: qualifies_def Let_def strip_after_prefix)
  next
    case False
    with Cons show ?thesis by (auto simp: qualifies_def Let_def strip_after_prefix)
  qed
qed

lemma replace_char_map:
  "replace_char old new s = map (\<lambda>c. if c = old then new else c) s"
  by (induction s) simp_all

lemma empty_text_no_title: "find (qualifies U) (take 5 (split_nl [])) = None"
  by (simp add: split_nl_def qualifies_def strip_def)

text \<open>
  C8: \<open>extract_title_from_pdf\<close> returns what the specification describes: among at most
  the first five lines of the text of page 1, the first one whose trimmed length is
  greater than 3 and less than 200 and of which something remains after the leading run
  of digits, white space, periods and hyphens is removed, and of that line the
  remainder; and the stem of the file name, underscores replaced by blanks and
  title-cased, when no such line exists or the document or its first page cannot be
  read.
\<close>

theorem title_extraction_refines:
  "extract_title_from_pdf U E pdf_path =
   extract_title U (first_page_text E pdf_path) (path_stem E pdf_path)"
  unfolding extract_title_from_pdf_def extract_title_def first_page_text_def
    fallback_title_def title_cased_stem_def
  by (auto simp: title_scan_find empty_text_no_title replace_char_map
           split: sum.splits list.splits option.splits)

theorem title_extraction_refines_witness:
  "extract_title_from_pdf ascii sample_env (ustr ''report.pdf'') =
     extract_title ascii (first_page_text sample_env (ustr ''report.pdf''))
       (path_stem sample_env (ustr ''report.pdf'')) \<and>
   extract_title ascii (first_page_text sample_env (ustr ''report.pdf''))
       (path_stem sample_env (ustr ''report.pdf'')) = ustr ''Acme Corp Annual Report'' \<and>
   extract_title_from_pdf ascii sample_env (ustr ''lost_file.pdf'') =
     extract_title ascii (first_page_text sample_env (ustr ''lost_file.pdf''))
       (path_stem sample_env (ustr ''lost_file.pdf'')) \<and>
   extract_title ascii (first_page_text sample_env (ustr ''lost_file.pdf''))
       (path_stem sample_env (ustr ''lost_file.pdf'')) = ustr ''Lost File'' \<and>
   extract_title_from_pdf ascii sample_env (ustr ''2024_q3-notes.pdf'') =
     extract_title ascii (first_page_text sample_env (ustr ''2024_q3-notes.pdf''))
       (path_stem sample_env (ustr ''2024_q3-notes.pdf'')) \<and>
   extract_title ascii (first_page_text sample_env (ustr ''2024_q3-notes.pdf''))
       (path_stem sample_env (ustr ''2024_q3-notes.pdf'')) = ustr ''2024 Q3-Notes''"
proof -
  have a: "extract_title ascii (first_page_text sample_env (ustr ''report.pdf''))
       (path_stem sample_env (ustr ''report.pdf'')) = ustr ''Acme Corp Annual Report''"
    by code_simp
  have b: "extract_title ascii (first_page_text sample_env (ustr ''lost_file.pdf''))
       (path_stem sample_env (ustr ''lost_file.pdf'')) = ustr ''Lost File''"
    by code_simp
  have c: "extract_title ascii (first_page_text sample_env (ustr ''2024_q3-notes.pdf''))
       (path_stem sample_env (ustr ''2024_q3-notes.pdf'')) = ustr ''2024 Q3-Notes''"
    by code_simp
  from title_extraction_refines [of ascii sample_env "ustr ''report.pdf''"] a
    title_extraction_refines [of ascii sample_env "ustr ''lost_file.pdf''"] b
    title_extraction_refines [of ascii sample_env "ustr ''2024_q3-notes.pdf''"] c
  show ?thesis by (intro conjI)
qed

subsection \<open>The outline\<close>

text \<open>
  C6: when the loop body rejects every line of the document, \<open>process_pdf\<close> returns the
  title of \<open>extract_title_from_pdf\<close> with the empty outline, as a result and not as an
  error, and it has made no call to the classifier: neither \<open>joblib.load\<close> nor
  \<open>predict\<close>.
\<close>

theorem no_candidates_empty_outline:
  "fitz_open E pdf_path = Inr doc \<Longrightarrow> list_all (rejects U) (doc_lines 1 doc) \<Longrightarrow>
   process_pdf U E pdf_path model_path =
     ([], Inr \<lparr> title = extract_title_from_pdf U E pdf_path, outline = [] \<rparr>)"
  using pages_loop_rejects [of U 1 doc "[]"]
  by (simp add: process_pdf_def extract_headings_from_pdf_def)

theorem no_candidates_empty_outline_witness:
  "fitz_open sample_env (ustr ''plain.pdf'') = Inr plain_doc \<and>
   list_all (rejects ascii) (doc_lines 1 plain_doc) \<and>
   process_pdf ascii sample_env (ustr ''plain.pdf'') (ustr ''two.joblib'') =
     ([], Inr \<lparr> title = extract_title_from_pdf ascii sample_env (ustr ''plain.pdf''),
                outline = [] \<rparr>)"
proof -
  have a: "fitz_open sample_env (ustr ''plain.pdf'') = Inr plain_doc" by code_simp
  have b: "list_all (rejects ascii) (doc_lines 1 plain_doc)" by code_simp
  from no_candidates_empty_outline [OF a b, of "ustr ''two.joblib''"] a b
  show ?thesis by (intro conjI)
qed

text \<open>
  C7: with at least one heading found, an exception of \<open>joblib.load\<close> or of \<open>predict\<close>
  leaves \<open>process_pdf\<close> as it is; no document with an empty outline is returned in its
  place.
\<close>

theorem classifier_failure_propagates:
  "extract_headings_from_pdf U E pdf_path = Inr headings \<Longrightarrow> headings \<noteq> [] \<Longrightarrow>
   joblib_load E model_path = Inl e
     \<or> (\<exists>model. joblib_load E model_path = Inr model
                \<and> predict E model (map htext headings) = Inl e) \<Longrightarrow>
   snd (process_pdf U E pdf_path model_path) = Inl e"
  by (auto simp: process_pdf_def)

theorem classifier_failure_propagates_witness:
  "extract_headings_from_pdf ascii sample_env (ustr ''report.pdf'') = Inr sample_headings \<and>
   sample_headings \<noteq> [] \<and>
   (joblib_load sample_env (ustr ''failing.joblib'') = Inl (OtherError ''predict failed'')
     \<or> (\<exists>model. joblib_load sample_env (ustr ''failing.joblib'') = Inr model
                \<and> predict sample_env model (map htext sample_headings)
                    = Inl (OtherError ''predict failed''))) \<and>
   snd (process_pdf ascii sample_env (ustr ''report.pdf'') (ustr ''failing.joblib''))
     = Inl (OtherError ''predict failed'')"
proof -
  have a: "extract_headings_from_pdf ascii sample_env (ustr ''report.pdf'') = Inr sample_headings"
    by code_simp
  have b: "sample_headings \<noteq> []" by code_simp
  have l: "joblib_load sample_env (ustr ''failing.joblib'') = Inr None" by code_simp
  have p: "predict sample_env None (map htext sample_headings)
             = Inl (OtherError ''predict failed'')" by code_simp
  from l p have c: "joblib_load sample_env (ustr ''failing.joblib'') = Inl (OtherError ''predict failed'')
     \<or> (\<exists>model. joblib_load sample_env (ustr ''failing.joblib'') = Inr model
                \<and> predict sample_env model (map htext sample_headings)
                    = Inl (OtherError ''predict failed''))" by blast
  from classifier_failure_propagates [OF a b c] a b c
  show ?thesis by (intro conjI)
qed

lemma zip_take_left: "zip xs ys = zip (take (length ys) xs) ys"
  by (induction xs ys rule: list_induct2') auto

text \<open>
  C10: \<open>process_pdf\<close> does not check the length of the answer of \<open>predict\<close>. With fewer
  labels than headings it returns normally; the outline has one entry per label, made
  of the first headings, and the remaining headings are dropped.
\<close>

theorem short_prediction_truncates:
  "extract_headings_from_pdf U E pdf_path = Inr headings \<Longrightarrow>
   joblib_load E model_path = Inr model \<Longrightarrow>
   predict E model (map htext headings) = Inr levels \<Longrightarrow>
   length levels < length headings \<Longrightarrow>
   (\<exists>ol. snd (process_pdf U E pdf_path model_path)
            = Inr \<lparr> title = extract_title_from_pdf U E pdf_path, outline = ol \<rparr>
        \<and> length ol = length levels
        \<and> ol = map (\<lambda>(h, lv). \<lparr> htext = htext h, page = page h, level = lv \<rparr>)
                 (zip (take (length levels) headings) levels))"
proof -
  assume h: "extract_headings_from_pdf U E pdf_path = Inr headings"
    and l: "joblib_load E model_path = Inr model"
    and p: "predict E model (map htext headings) = Inr levels"
    and n: "length levels < length headings"
  from n have ne: "headings \<noteq> []" by auto
  have z: "zip headings levels = zip (take (length levels) headings) levels"
    by (rule zip_take_left)
  from h l p ne show ?thesis
    by (simp add: process_pdf_def z [symmetric] n less_imp_le)
qed

theorem short_prediction_truncates_witness:
  "extract_headings_from_pdf ascii sample_env (ustr ''report.pdf'') = Inr sample_headings \<and>
   joblib_load sample_env (ustr ''one.joblib'') = Inr (Some [ustr ''H1'']) \<and>
   predict sample_env (Some [ustr ''H1'']) (map htext sample_headings) = Inr [ustr ''H1''] \<and>
   length [ustr ''H1''] < length sample_headings \<and>
   (\<exists>ol. snd (process_pdf ascii sample_env (ustr ''report.pdf'') (ustr ''one.joblib''))
            = Inr \<lparr> title = extract_title_from_pdf ascii sample_env (ustr ''report.pdf''),
                    outline = ol \<rparr>
        \<and> length ol = length [ustr ''H1'']
        \<and> ol = map (\<lambda>(h, lv). \<lparr> htext = htext h, page = page h, level = lv \<rparr>)
                 (zip (take (length [ustr ''H1'']) sample_headings) [ustr ''H1'']))"
proof -
  have a: "extract_headings_from_pdf ascii sample_env (ustr ''report.pdf'') = Inr sample_headings"
    by code_simp
  have b: "joblib_load sample_env (ustr ''one.joblib'') = Inr (Some [ustr ''H1''])" by code_simp
  have c: "predict sample_env (Some [ustr ''H1'']) (map htext sample_headings) = Inr [ustr ''H1'']"
    by code_simp
  have d: "length [ustr ''H1''] < length sample_headings" by code_simp
  from short_prediction_truncates [OF a b c d] a b c d
  show ?thesis by (intro conjI)
qed

text \<open>
  C2: when \<open>predict\<close> answers the texts of the headings with as many labels,
  \<open>process_pdf\<close> returns an outline with exactly one entry per accepted line: the
  headings are the accepted lines of the document in reading order, entry \<open>i\<close> carries
  the text and page of heading \<open>i\<close> and label \<open>i\<close>, and the page numbers of the entries
  never decrease.
\<close>

theorem outline_one_per_candidate:
  assumes "fitz_open E pdf_path = Inr doc"
    and "extract_headings_from_pdf U E pdf_path = Inr headings"
    and "joblib_load E model_path = Inr model"
    and "predict E model (map htext headings) = Inr levels"
    and "length levels = length headings"
  shows "\<exists>ol. snd (process_pdf U E pdf_path model_path)
              = Inr \<lparr> title = extract_title_from_pdf U E pdf_path, outline = ol \<rparr>
          \<and> headings = map (candidate U) (filter (accepts U) (doc_lines 1 doc))
          \<and> length ol = length headings
          \<and> (\<forall>i < length headings.
                ol ! i = \<lparr> htext = htext (headings ! i), page = page (headings ! i),
                           level = levels ! i \<rparr>)
          \<and> sorted (map page ol)"
proof -
  let ?ol = "map (\<lambda>(h, lv). \<lparr> htext = htext h, page = page h, level = lv \<rparr>)
               (zip headings levels)"
  have r: "snd (process_pdf U E pdf_path model_path)
           = Inr \<lparr> title = extract_title_from_pdf U E pdf_path, outline = ?ol \<rparr>"
    using assms(2-5) by (cases "headings = []") (simp_all add: process_pdf_def)
  have c: "headings = map (candidate U) (filter (accepts U) (doc_lines 1 doc))"
    using assms(1,2) by (rule extract_headings_filter)
  have n: "length ?ol = length headings" using assms(5) by simp
  have i: "\<forall>i < length headings.
             ?ol ! i = \<lparr> htext = htext (headings ! i), page = page (headings ! i),
                         level = levels ! i \<rparr>"
    using assms(5) by simp
  have "map page ?ol = map page headings"
    using assms(5) by (intro nth_equalityI) simp_all
  moreover have "sorted (map page headings)"
    unfolding c by (rule candidates_sorted)
  ultimately have s: "sorted (map page ?ol)" by simp
  from r c n i s show ?thesis by blast
qed

theorem outline_one_per_candidate_witness:
  "fitz_open sample_env (ustr ''report.pdf'') = Inr sample_doc \<and>
   extract_headings_from_pdf ascii sample_env (ustr ''report.pdf'') = Inr sample_headings \<and>
   joblib_load sample_env (ustr ''two.joblib'') = Inr (Some [ustr ''H1'', ustr ''H2'']) \<and>
   predict sample_env (Some [ustr ''H1'', ustr ''H2'']) (map htext sample_headings)
     = Inr [ustr ''H1'', ustr ''H2''] \<and>
   length [ustr ''H1'', ustr ''H2''] = length sample_headings \<and>
   (\<exists>ol. snd (process_pdf ascii sample_env (ustr ''report.pdf'') (ustr ''two.joblib''))
              = Inr \<lparr> title = extract_title_from_pdf ascii sample_env (ustr ''report.pdf''),
                      outline = ol \<rparr>
          \<and> sample_headings = map (candidate ascii) (filter (accepts ascii) (doc_lines 1 sample_doc))
          \<and> length ol = length sample_headings
          \<and> (\<forall>i < length sample_headings.
                ol ! i = \<lparr> htext = htext (sample_headings ! i), page = page (sample_headings ! i),
                           level = [ustr ''H1'', ustr ''H2''] ! i \<rparr>)
          \<and> sorted (map page ol))"
proof -
  have a: "fitz_open sample_env (ustr ''report.pdf'') = Inr sample_doc" by code_simp
  have b: "extract_headings_from_pdf ascii sample_env (ustr ''report.pdf'') = Inr sample_headings"
    by code_simp
  have c: "joblib_load sample_env (ustr ''two.joblib'') = Inr (Some [ustr ''H1'', ustr ''H2''])"
    by code_simp
  have d: "predict sample_env (Some [ustr ''H1'', ustr ''H2'']) (map htext sample_headings)
     = Inr [ustr ''H1'', ustr ''H2'']"
    by code_simp
  have e: "length [ustr ''H1'', ustr ''H2''] = length sample_headings" by code_simp
  from outline_one_per_candidate [OF a b c d e] a b c d e
  show ?thesis by (intro conjI)
qed

end
